theory Spec2Isabelle
  imports Main
begin

section \<open>JavaScript values\<close>

text \<open>
  The values that reach the pod engine of \<^verbatim>\<open>lib/Api.js\<close> are the primitive values of
  JavaScript: attribute values of the plugin's metadata and the CLI variables. Numbers are
  represented by the integers (the only numeric test of the code is \<^verbatim>\<open>value === 1\<close>), strings
  by lists of characters.
\<close>

datatype jsval = JUndefined | JNull | JBool bool | JNum int | JStr string

text \<open>Truthiness, as \<^verbatim>\<open>if (v)\<close> and \<^verbatim>\<open>filter(e => pod[e])\<close> test it.\<close>

fun truthy :: "jsval \<Rightarrow> bool" where
  "truthy JUndefined = False"
| "truthy JNull = False"
| "truthy (JBool b) = b"
| "truthy (JNum n) = (n \<noteq> 0)"
| "truthy (JStr s) = (s \<noteq> [])"

text \<open>
  \<^verbatim>\<open>String.prototype.toLowerCase\<close> on the letters \<^verbatim>\<open>A\<close> to \<^verbatim>\<open>Z\<close>; every other
  character is left as it is.
\<close>

definition toLowerCase_char :: "char \<Rightarrow> char" where
  "toLowerCase_char c =
     (case map_of (zip ''ABCDEFGHIJKLMNOPQRSTUVWXYZ'' ''abcdefghijklmnopqrstuvwxyz'') c of
        None \<Rightarrow> c
      | Some l \<Rightarrow> l)"

definition toLowerCase :: "string \<Rightarrow> string" where
  "toLowerCase s = map toLowerCase_char s"

text \<open>
  \<^verbatim>\<open>const _isTrue = (value) => (value === true) ||
    (typeof value === 'string' && value.toLowerCase() === 'true') || value === 1\<close>
\<close>

fun isTrue :: "jsval \<Rightarrow> bool" where
  "isTrue (JBool b) = b"
| "isTrue (JStr s) = (toLowerCase s = ''true'')"
| "isTrue (JNum n) = (n = 1)"
| "isTrue JUndefined = False"
| "isTrue JNull = False"

section \<open>Resolving variables in a pod\<close>

text \<open>
  The code throws a \<^verbatim>\<open>TypeError\<close> where it calls a method of a value that has none, reads a
  property of \<^verbatim>\<open>undefined\<close>, or hands \<^verbatim>\<open>undefined\<close> to \<^verbatim>\<open>Object.keys\<close>.
  \<^verbatim>\<open>NotRegistered\<close> is the failure of the ledger's increment on a key without an entry.
\<close>

datatype error = TypeError | NotRegistered

text \<open>
  The install or uninstall options. \<^verbatim>\<open>cli_variables\<close> is the object the resolver indexes;
  \<open>None\<close> stands for options without that object (or no options at all): both make
  \<^verbatim>\<open>options.cli_variables[...]\<close> throw. An object is read through its property lookup;
  a name it does not hold yields \<^verbatim>\<open>undefined\<close>.
\<close>

record options =
  cli_variables :: "(string \<rightharpoonup> jsval) option"

definition lookup_variable :: "(string \<rightharpoonup> jsval) \<Rightarrow> string \<Rightarrow> jsval" where
  "lookup_variable vars n = (case vars n of None \<Rightarrow> JUndefined | Some v \<Rightarrow> v)"

text \<open>
  \<^verbatim>\<open>function getVariableSpec (spec, options) {
    return spec.includes('$') ? options.cli_variables[spec.replace('$', '')] : spec;
  }\<close>
  \<^verbatim>\<open>replace\<close> with a string pattern removes the first \<^verbatim>\<open>$\<close> only, which is
  \<^const>\<open>remove1\<close>. Only a string has \<^verbatim>\<open>includes\<close>.
\<close>

fun getVariableSpec :: "jsval \<Rightarrow> options \<Rightarrow> error + jsval" where
  "getVariableSpec (JStr s) opts =
     (if CHR ''$'' \<in> set s
      then (case cli_variables opts of
              None \<Rightarrow> Inl TypeError
            | Some vars \<Rightarrow> Inr (lookup_variable vars (remove1 (CHR ''$'') s)))
      else Inr (JStr s))"
| "getVariableSpec JUndefined opts = Inl TypeError"
| "getVariableSpec JNull opts = Inl TypeError"
| "getVariableSpec (JBool b) opts = Inl TypeError"
| "getVariableSpec (JNum n) opts = Inl TypeError"

text \<open>
  A library of a pod spec: the attributes of the plugin's \<^verbatim>\<open><pod>\<close> element that the engine
  reads. An attribute that is not there reads as \<^verbatim>\<open>undefined\<close>.
\<close>

record pod =
  name :: jsval
  spec :: jsval
  tag :: jsval
  git :: jsval
  commit :: jsval
  branch :: jsval
  nospm :: jsval

text \<open>Property access by name, \<^verbatim>\<open>pod[e]\<close> and \<^verbatim>\<open>pod[e] = v\<close>.\<close>

definition pod_get :: "pod \<Rightarrow> string \<Rightarrow> jsval" where
  "pod_get p e =
     (if e = ''name'' then name p
      else if e = ''spec'' then spec p
      else if e = ''tag'' then tag p
      else if e = ''git'' then git p
      else if e = ''commit'' then commit p
      else if e = ''branch'' then branch p
      else if e = ''nospm'' then nospm p
      else JUndefined)"

definition pod_set :: "pod \<Rightarrow> string \<Rightarrow> jsval \<Rightarrow> pod" where
  "pod_set p e v =
     (if e = ''name'' then p\<lparr>name := v\<rparr>
      else if e = ''spec'' then p\<lparr>spec := v\<rparr>
      else if e = ''tag'' then p\<lparr>tag := v\<rparr>
      else if e = ''git'' then p\<lparr>git := v\<rparr>
      else if e = ''commit'' then p\<lparr>commit := v\<rparr>
      else if e = ''branch'' then p\<lparr>branch := v\<rparr>
      else if e = ''nospm'' then p\<lparr>nospm := v\<rparr>
      else p)"

text \<open>
  \<^verbatim>\<open>function replacePodSpecVariables (pod, options) {
    const podSpecs = ['spec', 'tag', 'git', 'commit', 'branch'];
    podSpecs.filter(e => pod[e])
        .forEach(obj => { const value = pod[obj]; pod[obj] = getVariableSpec(value, options); });
    return pod;
  }\<close>
  The filter runs over the pod as it was handed in; the loop stops at the first throw.
\<close>

definition podSpecs_fields :: "string list" where
  "podSpecs_fields = [''spec'', ''tag'', ''git'', ''commit'', ''branch'']"

fun replace_each :: "string list \<Rightarrow> pod \<Rightarrow> options \<Rightarrow> error + pod" where
  "replace_each [] p opts = Inr p"
| "replace_each (obj # rest) p opts =
     (case getVariableSpec (pod_get p obj) opts of
        Inl err \<Rightarrow> Inl err
      | Inr v \<Rightarrow> replace_each rest (pod_set p obj v) opts)"

definition replacePodSpecVariables :: "pod \<Rightarrow> options \<Rightarrow> error + pod" where
  "replacePodSpecVariables p opts =
     replace_each (filter (\<lambda>e. truthy (pod_get p e)) podSpecs_fields) p opts"

section \<open>The ledger: pods.json\<close>

text \<open>
  \<^verbatim>\<open>lib/PodsJson.js\<close> is not among the sources: the ledger is modelled from section 4.2 of
  the specification (DependencyLedger). A ledger entry is the payload with its reference count;
  the ledger holds one mapping from keys to entries for each of the three kinds.
\<close>

record 'a entry =
  payload :: 'a
  count :: nat

record podsjson =
  pj_declarations :: "string \<rightharpoonup> string entry"
  pj_sources :: "string \<rightharpoonup> string entry"
  pj_libraries :: "string \<rightharpoonup> pod entry"

text \<open>
  Modelled from the spec: \<^verbatim>\<open>increment(key)\<close> of the missing \<^verbatim>\<open>PodsJson\<close>: "if entry exists,
  referenceCount += 1; else fails".
\<close>

definition ledger_increment ::
  "string \<Rightarrow> (string \<rightharpoonup> 'a entry) \<Rightarrow> error + (string \<rightharpoonup> 'a entry)" where
  "ledger_increment k m =
     (case m k of
        None \<Rightarrow> Inl NotRegistered
      | Some e \<Rightarrow> Inr (m(k \<mapsto> e\<lparr>count := count e + 1\<rparr>)))"

text \<open>
  Modelled from the spec: \<^verbatim>\<open>decrement(key)\<close> of the missing \<^verbatim>\<open>PodsJson\<close>: "if entry exists,
  referenceCount -= 1, floored at 0 (never negative); if absent, this is a no-op". The
  subtraction on \<^typ>\<open>nat\<close> stops at 0. The entry stays in the ledger.
\<close>

definition ledger_decrement :: "string \<Rightarrow> (string \<rightharpoonup> 'a entry) \<Rightarrow> (string \<rightharpoonup> 'a entry)" where
  "ledger_decrement k m =
     (case m k of
        None \<Rightarrow> m
      | Some e \<Rightarrow> m(k \<mapsto> e\<lparr>count := count e - 1\<rparr>))"

text \<open>
  Modelled from the spec: \<^verbatim>\<open>setEntry(key, payload)\<close> of the missing \<^verbatim>\<open>PodsJson\<close>: "creates
  a new entry with referenceCount = 1". The engine hands over the object it has built, whose
  \<^verbatim>\<open>count\<close> it has set to 1 itself.
\<close>

definition ledger_set :: "string \<Rightarrow> 'a entry \<Rightarrow> (string \<rightharpoonup> 'a entry) \<Rightarrow> (string \<rightharpoonup> 'a entry)" where
  "ledger_set k e m = m(k \<mapsto> e\<lparr>count := 1\<rparr>)"

text \<open>
  Modelled from the spec: \<^verbatim>\<open>get(key) -> LedgerEntry | not-found\<close> of the missing
  \<^verbatim>\<open>PodsJson\<close>, for declarations. The entry handed out is the object the ledger holds: the
  specification mentions no copy. The engine keeps it as \<^verbatim>\<open>val\<close>; a property of \<^verbatim>\<open>val\<close>
  read after a later increment or decrement of the same key is read from the same object, which
  the model finds in the ledger under the key.
\<close>

definition getDeclaration :: "string \<Rightarrow> podsjson \<Rightarrow> string entry option" where
  "getDeclaration k pj = pj_declarations pj k"

text \<open>Modelled from the spec: \<^verbatim>\<open>get\<close> of the missing \<^verbatim>\<open>PodsJson\<close>, for sources.\<close>

definition getSource :: "string \<Rightarrow> podsjson \<Rightarrow> string entry option" where
  "getSource k pj = pj_sources pj k"

text \<open>Modelled from the spec: \<^verbatim>\<open>get\<close> of the missing \<^verbatim>\<open>PodsJson\<close>, for libraries.\<close>

definition getLibrary :: "string \<Rightarrow> podsjson \<Rightarrow> pod entry option" where
  "getLibrary k pj = pj_libraries pj k"

text \<open>Modelled from the spec: \<^verbatim>\<open>increment\<close> of the missing \<^verbatim>\<open>PodsJson\<close>, for declarations.\<close>

definition incrementDeclaration :: "string \<Rightarrow> podsjson \<Rightarrow> error + podsjson" where
  "incrementDeclaration k pj =
     (case ledger_increment k (pj_declarations pj) of
        Inl err \<Rightarrow> Inl err
      | Inr m \<Rightarrow> Inr (pj\<lparr>pj_declarations := m\<rparr>))"

text \<open>Modelled from the spec: \<^verbatim>\<open>increment\<close> of the missing \<^verbatim>\<open>PodsJson\<close>, for sources.\<close>

definition incrementSource :: "string \<Rightarrow> podsjson \<Rightarrow> error + podsjson" where
  "incrementSource k pj =
     (case ledger_increment k (pj_sources pj) of
        Inl err \<Rightarrow> Inl err
      | Inr m \<Rightarrow> Inr (pj\<lparr>pj_sources := m\<rparr>))"

text \<open>Modelled from the spec: \<^verbatim>\<open>increment\<close> of the missing \<^verbatim>\<open>PodsJson\<close>, for libraries.\<close>

definition incrementLibrary :: "string \<Rightarrow> podsjson \<Rightarrow> error + podsjson" where
  "incrementLibrary k pj =
     (case ledger_increment k (pj_libraries pj) of
        Inl err \<Rightarrow> Inl err
      | Inr m \<Rightarrow> Inr (pj\<lparr>pj_libraries := m\<rparr>))"

text \<open>Modelled from the spec: \<^verbatim>\<open>decrement\<close> of the missing \<^verbatim>\<open>PodsJson\<close>, for declarations.\<close>

definition decrementDeclaration :: "string \<Rightarrow> podsjson \<Rightarrow> podsjson" where
  "decrementDeclaration k pj = pj\<lparr>pj_declarations := ledger_decrement k (pj_declarations pj)\<rparr>"

text \<open>Modelled from the spec: \<^verbatim>\<open>decrement\<close> of the missing \<^verbatim>\<open>PodsJson\<close>, for sources.\<close>

definition decrementSource :: "string \<Rightarrow> podsjson \<Rightarrow> podsjson" where
  "decrementSource k pj = pj\<lparr>pj_sources := ledger_decrement k (pj_sources pj)\<rparr>"

text \<open>Modelled from the spec: \<^verbatim>\<open>decrement\<close> of the missing \<^verbatim>\<open>PodsJson\<close>, for libraries.\<close>

definition decrementLibrary :: "string \<Rightarrow> podsjson \<Rightarrow> podsjson" where
  "decrementLibrary k pj = pj\<lparr>pj_libraries := ledger_decrement k (pj_libraries pj)\<rparr>"

text \<open>Modelled from the spec: \<^verbatim>\<open>setEntry\<close> of the missing \<^verbatim>\<open>PodsJson\<close>, for declarations.\<close>

definition setJsonDeclaration :: "string \<Rightarrow> string entry \<Rightarrow> podsjson \<Rightarrow> podsjson" where
  "setJsonDeclaration k e pj = pj\<lparr>pj_declarations := ledger_set k e (pj_declarations pj)\<rparr>"

text \<open>Modelled from the spec: \<^verbatim>\<open>setEntry\<close> of the missing \<^verbatim>\<open>PodsJson\<close>, for sources.\<close>

definition setJsonSource :: "string \<Rightarrow> string entry \<Rightarrow> podsjson \<Rightarrow> podsjson" where
  "setJsonSource k e pj = pj\<lparr>pj_sources := ledger_set k e (pj_sources pj)\<rparr>"

text \<open>Modelled from the spec: \<^verbatim>\<open>setEntry\<close> of the missing \<^verbatim>\<open>PodsJson\<close>, for libraries.\<close>

definition setJsonLibrary :: "string \<Rightarrow> pod entry \<Rightarrow> podsjson \<Rightarrow> podsjson" where
  "setJsonLibrary k e pj = pj\<lparr>pj_libraries := ledger_set k e (pj_libraries pj)\<rparr>"

section \<open>The manifest: Podfile\<close>

text \<open>
  \<^verbatim>\<open>lib/Podfile.js\<close> is not among the sources either: the manifest is modelled from sections 3
  and 4.3 of the specification (ManifestWriter): "ordered collections: declarations (strings),
  sources (URLs), library specs (name + version pin)". The serialised text is not modelled;
  the three collections stand for it.
\<close>

record podfile_contents =
  pf_declarations :: "string list"
  pf_sources :: "string list"
  pf_pods :: "(jsval \<times> pod) list"

text \<open>
  The manifest object of one operation: what was read from the file when it was opened, and
  the content in memory.
\<close>

record podfile =
  loaded :: podfile_contents
  contents :: podfile_contents

text \<open>
  Modelled from the spec: the manifest's add operations "append/update the in-memory
  representation": an entry that is there already is not repeated.
\<close>

definition append_new :: "'a \<Rightarrow> 'a list \<Rightarrow> 'a list" where
  "append_new x xs = (if x \<in> set xs then xs else xs @ [x])"

text \<open>
  Modelled from the spec: the update of a library spec by its name: the spec under the name is
  replaced where it stands, a new name is appended.
\<close>

fun upsert :: "'k \<Rightarrow> 'v \<Rightarrow> ('k \<times> 'v) list \<Rightarrow> ('k \<times> 'v) list" where
  "upsert k v [] = [(k, v)]"
| "upsert k v (kv # rest) = (if fst kv = k then (k, v) # rest else kv # upsert k v rest)"

text \<open>Modelled from the spec: \<^verbatim>\<open>addDeclaration(text)\<close> of the missing \<^verbatim>\<open>Podfile\<close>.\<close>

definition addDeclaration :: "string \<Rightarrow> podfile \<Rightarrow> podfile" where
  "addDeclaration d pf =
     pf\<lparr>contents := (contents pf)\<lparr>pf_declarations := append_new d (pf_declarations (contents pf))\<rparr>\<rparr>"

text \<open>Modelled from the spec: \<^verbatim>\<open>addSource(url)\<close> of the missing \<^verbatim>\<open>Podfile\<close>.\<close>

definition addSource :: "string \<Rightarrow> podfile \<Rightarrow> podfile" where
  "addSource u pf =
     pf\<lparr>contents := (contents pf)\<lparr>pf_sources := append_new u (pf_sources (contents pf))\<rparr>\<rparr>"

text \<open>
  Modelled from the spec: \<^verbatim>\<open>addLibrarySpec(name, payload)\<close> of the missing \<^verbatim>\<open>Podfile\<close>
  (\<^verbatim>\<open>addSpec\<close> in the engine).
\<close>

definition addSpec :: "jsval \<Rightarrow> pod \<Rightarrow> podfile \<Rightarrow> podfile" where
  "addSpec n p pf =
     pf\<lparr>contents := (contents pf)\<lparr>pf_pods := upsert n p (pf_pods (contents pf))\<rparr>\<rparr>"

text \<open>
  Modelled from the spec: \<^verbatim>\<open>removeDeclaration\<close> of the missing \<^verbatim>\<open>Podfile\<close>: "removes the
  corresponding entry if present".
\<close>

definition removeDeclaration :: "string \<Rightarrow> podfile \<Rightarrow> podfile" where
  "removeDeclaration d pf =
     pf\<lparr>contents := (contents pf)\<lparr>pf_declarations := removeAll d (pf_declarations (contents pf))\<rparr>\<rparr>"

text \<open>Modelled from the spec: \<^verbatim>\<open>removeSource\<close> of the missing \<^verbatim>\<open>Podfile\<close>.\<close>

definition removeSource :: "string \<Rightarrow> podfile \<Rightarrow> podfile" where
  "removeSource u pf =
     pf\<lparr>contents := (contents pf)\<lparr>pf_sources := removeAll u (pf_sources (contents pf))\<rparr>\<rparr>"

text \<open>
  Modelled from the spec: \<^verbatim>\<open>removeLibrarySpec\<close> of the missing \<^verbatim>\<open>Podfile\<close>
  (\<^verbatim>\<open>removeSpec\<close> in the engine).
\<close>

definition removeSpec :: "jsval \<Rightarrow> podfile \<Rightarrow> podfile" where
  "removeSpec n pf =
     pf\<lparr>contents := (contents pf)\<lparr>pf_pods := filter (\<lambda>kv. fst kv \<noteq> n) (pf_pods (contents pf))\<rparr>\<rparr>"

text \<open>
  Modelled from the spec: \<^verbatim>\<open>isDirty()\<close> of the missing \<^verbatim>\<open>Podfile\<close>: "true iff in-memory
  content differs from last-persisted content".
\<close>

definition isDirty :: "podfile \<Rightarrow> bool" where
  "isDirty pf = (contents pf \<noteq> loaded pf)"

section \<open>The world outside one operation\<close>

text \<open>
  What an operation reads and leaves behind: the two files of the project, the order in which
  files were written and the installer was started, and the events emitted.
\<close>

datatype effect = PodsJsonWrite | PodfileWrite | PodInstall

datatype level = verbose | warn

text \<open>
  The messages of the engine, by their variable parts:
  \<^item> \<^verbatim>\<open>'Adding pods since the plugin contained <podspecs>'\<close> (install and uninstall emit
    the same text);
  \<^item> \<^verbatim>\<open>`${plugin.id} depends on ${podJson.name}, which may conflict with another plugin.
    ${podJson.name}@${val.spec} is already installed and was not overwritten.`\<close>;
  \<^item> \<^verbatim>\<open>'plugin "%s" declaration "%s" does not seem to be in pods.json, nothing to remove.
    Will attempt to remove from Podfile.'\<close>, and the same for a source and a podspec;
  \<^item> \<^verbatim>\<open>'Running `pod install` (to install plugins)'\<close>, \<^verbatim>\<open>'... (to uninstall pods)'\<close>;
  \<^item> \<^verbatim>\<open>'Podfile unchanged, skipping `pod install`'\<close>.
\<close>

datatype message =
    AddingPods
  | MayConflict string jsval jsval
  | DeclarationNotInPodsJson string string
  | SourceNotInPodsJson string string
  | PodspecNotInPodsJson string jsval
  | RunningPodInstallToInstall
  | RunningPodInstallToUninstall
  | PodfileUnchanged

type_synonym event = "level \<times> message"

record world =
  pods_json :: podsjson
  podfile_text :: podfile_contents
  io :: "effect list"
  log :: "event list"

text \<open>
  Modelled from the spec: opening the missing \<^verbatim>\<open>PodsJson\<close> and \<^verbatim>\<open>Podfile\<close>: "Ledger and
  Manifest are loaded from persisted state at the start of every add/remove operation".
\<close>

definition open_podsjson :: "world \<Rightarrow> podsjson" where
  "open_podsjson w = pods_json w"

text \<open>Modelled from the spec: opening the missing \<^verbatim>\<open>Podfile\<close>: nothing differs yet.\<close>

definition open_podfile :: "world \<Rightarrow> podfile" where
  "open_podfile w = \<lparr>loaded = podfile_text w, contents = podfile_text w\<rparr>"

text \<open>
  Modelled from the spec: \<^verbatim>\<open>write()\<close> of the missing \<^verbatim>\<open>PodsJson\<close>: "serializes the full
  ledger to persistent storage, overwriting prior content".
\<close>

definition podsjson_write :: "podsjson \<Rightarrow> world \<Rightarrow> world" where
  "podsjson_write pj w = w\<lparr>pods_json := pj, io := io w @ [PodsJsonWrite]\<rparr>"

text \<open>
  Modelled from the spec: \<^verbatim>\<open>write()\<close> of the missing \<^verbatim>\<open>Podfile\<close>: "persists in-memory
  content; clears dirty flag". The engine drops the manifest object right after.
\<close>

definition podfile_write :: "podfile \<Rightarrow> world \<Rightarrow> podfile \<times> world" where
  "podfile_write pf w =
     (pf\<lparr>loaded := contents pf\<rparr>, w\<lparr>podfile_text := contents pf, io := io w @ [PodfileWrite]\<rparr>)"

text \<open>
  Modelled from the spec: \<^verbatim>\<open>install\<close> of the missing \<^verbatim>\<open>Podfile\<close>, the call of the external
  installer. Its outcome belongs to the promise the engine returns and is not part of the model;
  that it was started is recorded.
\<close>

definition podfile_install :: "world \<Rightarrow> world" where
  "podfile_install w = w\<lparr>io := io w @ [PodInstall]\<rparr>"

definition emit :: "level \<Rightarrow> message \<Rightarrow> event list \<Rightarrow> event list" where
  "emit l m evs = evs @ [(l, m)]"

section \<open>The engine: addPodSpecs and removePodSpecs\<close>

text \<open>
  The plugin, as far as the engine reads it: \<^verbatim>\<open>plugin.id\<close>, and the answer of
  \<^verbatim>\<open>isSwiftPackagePlugin(plugin)\<close>, a function of \<^verbatim>\<open>lib/SwiftPackage.js\<close> that is not
  among the sources and is taken as given.
\<close>

record plugin =
  plugin_id :: string
  isSwiftPackagePlugin :: bool

text \<open>
  One element of \<^verbatim>\<open>podSpecs\<close>. A section that the object does not have is \<open>None\<close>; a
  section lists its keys in the order of \<^verbatim>\<open>Object.keys\<close>, each with the value the code reads
  under it (\<^verbatim>\<open>obj.declarations[key]\<close>, \<^verbatim>\<open>obj.sources[key].source\<close>, \<^verbatim>\<open>obj.libraries[key]\<close>).
\<close>

record podspec =
  declarations :: "(string \<times> jsval) list option"
  sources :: "(string \<times> string) list option"
  libraries :: "(string \<times> pod) list option"

text \<open>The objects one operation works on, and the events it has emitted so far.\<close>

record session =
  podsjsonFile :: podsjson
  podfileFile :: podfile
  emitted :: "event list"

text \<open>
  The start of both operations: the two objects are built from the files (Api.js, lines 353
  and 354, 447 and 448) and the first event is emitted (lines 356 and 451).
\<close>

definition open_session :: "world \<Rightarrow> session" where
  "open_session w =
     \<lparr>podsjsonFile = open_podsjson w, podfileFile = open_podfile w,
      emitted = emit verbose AddingPods (log w)\<rparr>"

text \<open>\<^verbatim>\<open>forEach\<close> with a callback that may throw: the first throw ends the loop.\<close>

fun forEach :: "('a \<Rightarrow> 's \<Rightarrow> error + 's) \<Rightarrow> 'a list \<Rightarrow> 's \<Rightarrow> error + 's" where
  "forEach f [] s = Inr s"
| "forEach f (x # xs) s = (case f x s of Inl err \<Rightarrow> Inl err | Inr s' \<Rightarrow> forEach f xs s')"

text \<open>
  \<^verbatim>\<open>Object.keys(section)\<close>: a \<^verbatim>\<open>TypeError\<close> on \<^verbatim>\<open>undefined\<close>.
\<close>

definition Object_keys :: "'a list option \<Rightarrow> error + 'a list" where
  "Object_keys section = (case section of None \<Rightarrow> Inl TypeError | Some entries \<Rightarrow> Inr entries)"

subsection \<open>Install\<close>

text \<open>
  The body of the loop over \<^verbatim>\<open>obj.declarations\<close> in \<^verbatim>\<open>addPodSpecs\<close> (Api.js, lines 360 to
  375). \<^verbatim>\<open>Podfile.proofDeclaration\<close> is a function of the missing \<^verbatim>\<open>lib/Podfile.js\<close> that
  the specification does not describe: it is the parameter \<open>proofDeclaration\<close>.
\<close>

definition add_declaration ::
  "(string \<Rightarrow> string) \<Rightarrow> string \<times> jsval \<Rightarrow> session \<Rightarrow> error + session" where
  "add_declaration proofDeclaration kv s =
     (if snd kv = JStr ''true'' then
        (let declaration = proofDeclaration (fst kv) in
         case getDeclaration declaration (podsjsonFile s) of
           Some val \<Rightarrow>
             (case incrementDeclaration declaration (podsjsonFile s) of
                Inl err \<Rightarrow> Inl err
              | Inr pj \<Rightarrow> Inr (s\<lparr>podsjsonFile := pj\<rparr>))
         | None \<Rightarrow>
             (let podJson = \<lparr>payload = declaration, count = 1\<rparr> in
              Inr (s\<lparr>podsjsonFile := setJsonDeclaration declaration podJson (podsjsonFile s),
                     podfileFile := addDeclaration (payload podJson) (podfileFile s)\<rparr>)))
      else Inr s)"

text \<open>The body of the loop over \<^verbatim>\<open>obj.sources\<close> in \<^verbatim>\<open>addPodSpecs\<close> (lines 380 to 392).\<close>

definition add_source :: "string \<times> string \<Rightarrow> session \<Rightarrow> error + session" where
  "add_source kv s =
     (case getSource (fst kv) (podsjsonFile s) of
        Some val \<Rightarrow>
          (case incrementSource (fst kv) (podsjsonFile s) of
             Inl err \<Rightarrow> Inl err
           | Inr pj \<Rightarrow> Inr (s\<lparr>podsjsonFile := pj\<rparr>))
      | None \<Rightarrow>
          (let podJson = \<lparr>payload = snd kv, count = 1\<rparr> in
           Inr (s\<lparr>podsjsonFile := setJsonSource (fst kv) podJson (podsjsonFile s),
                  podfileFile := addSource (payload podJson) (podfileFile s)\<rparr>)))"

text \<open>
  The block guarded by the packaging test, in the loop over \<^verbatim>\<open>obj.libraries\<close> of
  \<^verbatim>\<open>addPodSpecs\<close> (lines 399 to 408). The warning is emitted before the increment.
\<close>

definition add_library_block :: "plugin \<Rightarrow> options \<Rightarrow> string \<times> pod \<Rightarrow> session \<Rightarrow> error + session" where
  "add_library_block p installOptions kv s =
     (case replacePodSpecVariables (snd kv) installOptions of
        Inl err \<Rightarrow> Inl err
      | Inr podJson \<Rightarrow>
          (case getLibrary (fst kv) (podsjsonFile s) of
             Some val \<Rightarrow>
               (let s1 = s\<lparr>emitted :=
                      emit warn (MayConflict (plugin_id p) (name podJson) (spec (payload val)))
                        (emitted s)\<rparr> in
                case incrementLibrary (fst kv) (podsjsonFile s1) of
                  Inl err \<Rightarrow> Inl err
                | Inr pj \<Rightarrow> Inr (s1\<lparr>podsjsonFile := pj\<rparr>))
           | None \<Rightarrow>
               (let counted = \<lparr>payload = podJson, count = 1\<rparr> in
                Inr (s\<lparr>podsjsonFile := setJsonLibrary (fst kv) counted (podsjsonFile s),
                       podfileFile := addSpec (name podJson) podJson (podfileFile s)\<rparr>))))"

text \<open>
  The body of the loop over \<^verbatim>\<open>obj.libraries\<close> in \<^verbatim>\<open>addPodSpecs\<close> (lines 396 to 410):
  \<^verbatim>\<open>if (!isSPM || (isSPM && !_isTrue(podJson.nospm)))\<close>.
\<close>

definition add_library :: "plugin \<Rightarrow> options \<Rightarrow> string \<times> pod \<Rightarrow> session \<Rightarrow> error + session" where
  "add_library p installOptions kv s =
     (let isSPM = isSwiftPackagePlugin p in
      if \<not> isSPM \<or> (isSPM \<and> \<not> isTrue (nospm (snd kv)))
      then add_library_block p installOptions kv s
      else Inr s)"

text \<open>
  The callback of \<^verbatim>\<open>podSpecs.forEach\<close> in \<^verbatim>\<open>addPodSpecs\<close> (lines 357 to 412): each section
  is guarded, \<^verbatim>\<open>if (obj.declarations)\<close>, \<^verbatim>\<open>if (obj.sources)\<close>, \<^verbatim>\<open>if (obj.libraries)\<close>.
\<close>

definition add_obj ::
  "(string \<Rightarrow> string) \<Rightarrow> plugin \<Rightarrow> options \<Rightarrow> podspec \<Rightarrow> session \<Rightarrow> error + session" where
  "add_obj proofDeclaration p installOptions obj s =
     (case (case declarations obj of
              None \<Rightarrow> Inr s
            | Some ds \<Rightarrow> forEach (add_declaration proofDeclaration) ds s) of
        Inl err \<Rightarrow> Inl err
      | Inr s1 \<Rightarrow>
          (case (case sources obj of
                   None \<Rightarrow> Inr s1
                 | Some ss \<Rightarrow> forEach add_source ss s1) of
             Inl err \<Rightarrow> Inl err
           | Inr s2 \<Rightarrow>
               (case libraries obj of
                  None \<Rightarrow> Inr s2
                | Some ls \<Rightarrow> forEach (add_library p installOptions) ls s2)))"

text \<open>
  \<^verbatim>\<open>addPodSpecs (plugin, podSpecs, installOptions)\<close> (lines 341 to 428). An empty
  \<^verbatim>\<open>podSpecs\<close> returns at once. A throw inside the loop leaves the call before anything is
  written: the result is the error alone.
\<close>

definition addPodSpecs ::
  "(string \<Rightarrow> string) \<Rightarrow> plugin \<Rightarrow> podspec list \<Rightarrow> options \<Rightarrow> world \<Rightarrow> error + world" where
  "addPodSpecs proofDeclaration p podSpecs installOptions w =
     (if podSpecs = [] then Inr w
      else
        (case forEach (add_obj proofDeclaration p installOptions) podSpecs (open_session w) of
           Inl err \<Rightarrow> Inl err
         | Inr s \<Rightarrow>
             (let w1 = podsjson_write (podsjsonFile s) w in
              if isDirty (podfileFile s)
              then
                (let w2 = snd (podfile_write (podfileFile s) w1);
                     w3 = w2\<lparr>log := emit verbose RunningPodInstallToInstall (emitted s)\<rparr> in
                 Inr (podfile_install w3))
              else Inr (w1\<lparr>log := emit verbose PodfileUnchanged (emitted s)\<rparr>))))"

subsection \<open>Uninstall\<close>

text \<open>
  \<^verbatim>\<open>val.count\<close>, read after the decrement. \<^verbatim>\<open>val\<close> is the entry object the ledger handed
  out before the decrement, and the decrement changed the count of that object: the value read
  is the count the ledger holds now.
\<close>

definition count_now :: "'a entry option \<Rightarrow> nat option" where
  "count_now stored = map_option count stored"

text \<open>
  The body of the loop over \<^verbatim>\<open>obj.declarations\<close> in \<^verbatim>\<open>removePodSpecs\<close> (lines 454 to 471).
\<close>

definition remove_declaration ::
  "(string \<Rightarrow> string) \<Rightarrow> plugin \<Rightarrow> string \<times> jsval \<Rightarrow> session \<Rightarrow> error + session" where
  "remove_declaration proofDeclaration p kv s =
     (if snd kv = JStr ''true'' then
        (let declaration = proofDeclaration (fst kv);
             val = getDeclaration declaration (podsjsonFile s);
             s1 = (if val \<noteq> None
                   then s\<lparr>podsjsonFile := decrementDeclaration declaration (podsjsonFile s)\<rparr>
                   else s\<lparr>emitted :=
                          emit verbose (DeclarationNotInPodsJson (plugin_id p) declaration)
                            (emitted s)\<rparr>) in
         if val = None \<or> count_now (getDeclaration declaration (podsjsonFile s1)) = Some 0
         then Inr (s1\<lparr>podfileFile := removeDeclaration declaration (podfileFile s1)\<rparr>)
         else Inr s1)
      else Inr s)"

text \<open>The body of the loop over \<^verbatim>\<open>obj.sources\<close> in \<^verbatim>\<open>removePodSpecs\<close> (lines 473 to 487).\<close>

definition remove_source :: "plugin \<Rightarrow> string \<times> string \<Rightarrow> session \<Rightarrow> error + session" where
  "remove_source p kv s =
     (let val = getSource (fst kv) (podsjsonFile s);
          s1 = (if val \<noteq> None
                then s\<lparr>podsjsonFile := decrementSource (fst kv) (podsjsonFile s)\<rparr>
                else s\<lparr>emitted :=
                       emit verbose (SourceNotInPodsJson (plugin_id p) (snd kv)) (emitted s)\<rparr>) in
      if val = None \<or> count_now (getSource (fst kv) (podsjsonFile s1)) = Some 0
      then Inr (s1\<lparr>podfileFile := removeSource (snd kv) (podfileFile s1)\<rparr>)
      else Inr s1)"

text \<open>
  The block guarded by the packaging test, in the loop over \<^verbatim>\<open>obj.libraries\<close> of
  \<^verbatim>\<open>removePodSpecs\<close> (lines 493 to 503).
\<close>

definition remove_library_block ::
  "plugin \<Rightarrow> options \<Rightarrow> string \<times> pod \<Rightarrow> session \<Rightarrow> error + session" where
  "remove_library_block p uninstallOptions kv s =
     (case replacePodSpecVariables (snd kv) uninstallOptions of
        Inl err \<Rightarrow> Inl err
      | Inr podJson \<Rightarrow>
          (let val = getLibrary (fst kv) (podsjsonFile s);
               s1 = (if val \<noteq> None
                     then s\<lparr>podsjsonFile := decrementLibrary (fst kv) (podsjsonFile s)\<rparr>
                     else s\<lparr>emitted :=
                            emit verbose (PodspecNotInPodsJson (plugin_id p) (name podJson))
                              (emitted s)\<rparr>) in
           if val = None \<or> count_now (getLibrary (fst kv) (podsjsonFile s1)) = Some 0
           then Inr (s1\<lparr>podfileFile := removeSpec (name podJson) (podfileFile s1)\<rparr>)
           else Inr s1))"

text \<open>
  The body of the loop over \<^verbatim>\<open>obj.libraries\<close> in \<^verbatim>\<open>removePodSpecs\<close> (lines 490 to 505),
  under the same packaging test as the install.
\<close>

definition remove_library ::
  "plugin \<Rightarrow> options \<Rightarrow> string \<times> pod \<Rightarrow> session \<Rightarrow> error + session" where
  "remove_library p uninstallOptions kv s =
     (let isSPM = isSwiftPackagePlugin p in
      if \<not> isSPM \<or> (isSPM \<and> \<not> isTrue (nospm (snd kv)))
      then remove_library_block p uninstallOptions kv s
      else Inr s)"

text \<open>
  The callback of \<^verbatim>\<open>podSpecs.forEach\<close> in \<^verbatim>\<open>removePodSpecs\<close> (lines 452 to 506): the keys
  of the three sections are listed without a guard, each list when its loop is reached.
\<close>

definition remove_obj ::
  "(string \<Rightarrow> string) \<Rightarrow> plugin \<Rightarrow> options \<Rightarrow> podspec \<Rightarrow> session \<Rightarrow> error + session" where
  "remove_obj proofDeclaration p uninstallOptions obj s =
     (case Object_keys (declarations obj) of
        Inl err \<Rightarrow> Inl err
      | Inr ds \<Rightarrow>
          (case forEach (remove_declaration proofDeclaration p) ds s of
             Inl err \<Rightarrow> Inl err
           | Inr s1 \<Rightarrow>
               (case Object_keys (sources obj) of
                  Inl err \<Rightarrow> Inl err
                | Inr ss \<Rightarrow>
                    (case forEach (remove_source p) ss s1 of
                       Inl err \<Rightarrow> Inl err
                     | Inr s2 \<Rightarrow>
                         (case Object_keys (libraries obj) of
                            Inl err \<Rightarrow> Inl err
                          | Inr ls \<Rightarrow> forEach (remove_library p uninstallOptions) ls s2)))))"

text \<open>
  \<^verbatim>\<open>removePodSpecs (plugin, podSpecs, uninstallOptions)\<close> (lines 439 to 522). With an empty
  \<^verbatim>\<open>podSpecs\<close> the two files are opened and nothing else happens.
\<close>

definition removePodSpecs ::
  "(string \<Rightarrow> string) \<Rightarrow> plugin \<Rightarrow> podspec list \<Rightarrow> options \<Rightarrow> world \<Rightarrow> error + world" where
  "removePodSpecs proofDeclaration p podSpecs uninstallOptions w =
     (if podSpecs \<noteq> [] then
        (case forEach (remove_obj proofDeclaration p uninstallOptions) podSpecs (open_session w) of
           Inl err \<Rightarrow> Inl err
         | Inr s \<Rightarrow>
             (let w1 = podsjson_write (podsjsonFile s) w in
              if isDirty (podfileFile s)
              then
                (let w2 = snd (podfile_write (podfileFile s) w1);
                     w3 = w2\<lparr>log := emit verbose RunningPodInstallToUninstall (emitted s)\<rparr> in
                 Inr (podfile_install w3))
              else Inr (w1\<lparr>log := emit verbose PodfileUnchanged (emitted s)\<rparr>)))
      else Inr w)"

section \<open>The units of a dependency set\<close>

text \<open>The entries of a section; a section that is not there has none.\<close>

definition entries :: "'a list option \<Rightarrow> 'a list" where
  "entries section = (case section of None \<Rightarrow> [] | Some xs \<Rightarrow> xs)"

text \<open>
  The units of a dependency set that the install acts on, in the order of the loops: the
  declarations whose value is \<^verbatim>\<open>'true'\<close> (by the key they have in the ledger), the sources,
  and the libraries that pass the packaging test.
\<close>

definition passes :: "plugin \<Rightarrow> string \<times> pod \<Rightarrow> bool" where
  "passes p kv = (\<not> (isSwiftPackagePlugin p \<and> isTrue (nospm (snd kv))))"
















section \<open>The scenario of the specification\<close>

text \<open>
  Section 8 of the specification: plugin A installs the library with key and name
  \<^verbatim>\<open>AFNetworking\<close> and spec \<^verbatim>\<open>~> 4.0\<close> into a project without pods; plugin B installs the same.
  \<^verbatim>\<open>Podfile.proofDeclaration\<close> is taken to be the identity where a concrete run needs it.
\<close>

definition afnetworking :: pod where
  "afnetworking =
     \<lparr>name = JStr ''AFNetworking'', spec = JStr ''~> 4.0'', tag = JUndefined, git = JUndefined,
      commit = JUndefined, branch = JUndefined, nospm = JUndefined\<rparr>"

definition afnetworking_podspec :: podspec where
  "afnetworking_podspec =
     \<lparr>declarations = Some [(''use_frameworks'', JStr ''true'')],
      sources = Some [(''https://cdn.cocoapods.org/'', ''https://cdn.cocoapods.org/'')],
      libraries = Some [(''AFNetworking'', afnetworking)]\<rparr>"

definition plugin_a :: plugin where
  "plugin_a = \<lparr>plugin_id = ''plugin-a'', isSwiftPackagePlugin = False\<rparr>"

definition plugin_b :: plugin where
  "plugin_b = \<lparr>plugin_id = ''plugin-b'', isSwiftPackagePlugin = False\<rparr>"

definition swift_plugin :: plugin where
  "swift_plugin = \<lparr>plugin_id = ''plugin-spm'', isSwiftPackagePlugin = True\<rparr>"

definition no_variables :: options where
  "no_variables = \<lparr>cli_variables = Some Map.empty\<rparr>"

definition no_pods :: podfile_contents where
  "no_pods = \<lparr>pf_declarations = [], pf_sources = [], pf_pods = []\<rparr>"

definition empty_ledger :: podsjson where
  "empty_ledger = \<lparr>pj_declarations = Map.empty, pj_sources = Map.empty, pj_libraries = Map.empty\<rparr>"

definition fresh_world :: world where
  "fresh_world = \<lparr>pods_json = empty_ledger, podfile_text = no_pods, io = [], log = []\<rparr>"

definition fresh_session :: session where
  "fresh_session =
     \<lparr>podsjsonFile = empty_ledger, podfileFile = \<lparr>loaded = no_pods, contents = no_pods\<rparr>,
      emitted = []\<rparr>"

text \<open>The project after plugin A has installed the set.\<close>

definition ledger_after_a :: podsjson where
  "ledger_after_a =
     \<lparr>pj_declarations = [''use_frameworks'' \<mapsto> \<lparr>payload = ''use_frameworks'', count = 1\<rparr>],
      pj_sources = [''https://cdn.cocoapods.org/'' \<mapsto>
                      \<lparr>payload = ''https://cdn.cocoapods.org/'', count = 1\<rparr>],
      pj_libraries = [''AFNetworking'' \<mapsto> \<lparr>payload = afnetworking, count = 1\<rparr>]\<rparr>"

definition pods_after_a :: podfile_contents where
  "pods_after_a =
     \<lparr>pf_declarations = [''use_frameworks''], pf_sources = [''https://cdn.cocoapods.org/''],
      pf_pods = [(JStr ''AFNetworking'', afnetworking)]\<rparr>"

definition world_after_a :: world where
  "world_after_a =
     \<lparr>pods_json = ledger_after_a, podfile_text = pods_after_a,
      io = [PodsJsonWrite, PodfileWrite, PodInstall],
      log = [(verbose, AddingPods), (verbose, RunningPodInstallToInstall)]\<rparr>"

text \<open>The project after plugin B has installed the same set.\<close>

definition ledger_after_b :: podsjson where
  "ledger_after_b =
     \<lparr>pj_declarations = [''use_frameworks'' \<mapsto> \<lparr>payload = ''use_frameworks'', count = 2\<rparr>],
      pj_sources = [''https://cdn.cocoapods.org/'' \<mapsto>
                      \<lparr>payload = ''https://cdn.cocoapods.org/'', count = 2\<rparr>],
      pj_libraries = [''AFNetworking'' \<mapsto> \<lparr>payload = afnetworking, count = 2\<rparr>]\<rparr>"

definition world_after_b :: world where
  "world_after_b =
     \<lparr>pods_json = ledger_after_b, podfile_text = pods_after_a,
      io = [PodsJsonWrite, PodfileWrite, PodInstall, PodsJsonWrite],
      log = [(verbose, AddingPods), (verbose, RunningPodInstallToInstall), (verbose, AddingPods),
             (warn, MayConflict ''plugin-b'' (JStr ''AFNetworking'') (JStr ''~> 4.0'')),
             (verbose, PodfileUnchanged)]\<rparr>"

text \<open>A library that is kept out of Swift packages, and one whose spec is a variable.\<close>

definition cocoapods_only :: pod where
  "cocoapods_only = afnetworking\<lparr>nospm := JStr ''TRUE''\<rparr>"

definition versioned :: pod where
  "versioned = afnetworking\<lparr>spec := JStr ''$AFN_VERSION'', git := JStr []\<rparr>"

definition with_version :: options where
  "with_version = \<lparr>cli_variables = Some [''AFN_VERSION'' \<mapsto> JStr ''~> 4.0'']\<rparr>"

text \<open>
  A session over a project whose manifest lists the pods of the scenario while its ledger is
  empty.
\<close>

definition orphaned_session :: session where
  "orphaned_session =
     \<lparr>podsjsonFile = empty_ledger, podfileFile = \<lparr>loaded = pods_after_a, contents = pods_after_a\<rparr>,
      emitted = []\<rparr>"

section \<open>Unfolding the model\<close>

lemmas engine_defs =
  addPodSpecs_def removePodSpecs_def add_obj_def remove_obj_def add_declaration_def
  add_source_def add_library_def add_library_block_def remove_declaration_def remove_source_def
  remove_library_def remove_library_block_def open_session_def open_podsjson_def
  open_podfile_def podsjson_write_def podfile_write_def podfile_install_def emit_def
  Object_keys_def count_now_def isDirty_def
  getDeclaration_def getSource_def getLibrary_def incrementDeclaration_def incrementSource_def
  incrementLibrary_def decrementDeclaration_def decrementSource_def decrementLibrary_def
  setJsonDeclaration_def setJsonSource_def setJsonLibrary_def ledger_increment_def
  ledger_decrement_def ledger_set_def addDeclaration_def addSource_def addSpec_def
  removeDeclaration_def removeSource_def removeSpec_def append_new_def
  replacePodSpecVariables_def podSpecs_fields_def pod_get_def pod_set_def lookup_variable_def
  toLowerCase_def toLowerCase_char_def Let_def

lemmas scenario_defs =
  afnetworking_def afnetworking_podspec_def plugin_a_def plugin_b_def swift_plugin_def
  no_variables_def no_pods_def empty_ledger_def fresh_world_def fresh_session_def
  ledger_after_a_def pods_after_a_def world_after_a_def cocoapods_only_def versioned_def
  with_version_def orphaned_session_def ledger_after_b_def world_after_b_def

section \<open>The variable resolver\<close>











section \<open>Declarations other than 'true'\<close>

text \<open>
  Claim C9. A declaration of a pod spec is acted on, by the install and by the uninstall, only
  when its value is exactly the string \<^verbatim>\<open>'true'\<close>. With any other value (the boolean
  \<^verbatim>\<open>true\<close>, \<^verbatim>\<open>'TRUE'\<close>, \<^verbatim>\<open>'1'\<close>, the number 1, ...) the declaration is passed over:
  ledger, manifest and the emitted events are what they were.
\<close>

theorem declaration_ignored_unless_true:
  "snd kv \<noteq> JStr ''true'' \<Longrightarrow>
     add_declaration proofDeclaration kv s = Inr s \<and>
     remove_declaration proofDeclaration p kv s = Inr s"
  by (simp add: add_declaration_def remove_declaration_def)

text \<open>The four values the claim names, in a project without pods.\<close>

theorem declaration_ignored_unless_true_witness:
  "snd (''use_frameworks'', JStr ''TRUE'') \<noteq> JStr ''true'' \<and>
   add_declaration id (''use_frameworks'', JStr ''TRUE'') fresh_session = Inr fresh_session \<and>
   remove_declaration id plugin_a (''use_frameworks'', JStr ''TRUE'') fresh_session =
     Inr fresh_session \<and>
   add_declaration id (''use_frameworks'', JBool True) fresh_session = Inr fresh_session \<and>
   remove_declaration id plugin_a (''use_frameworks'', JBool True) fresh_session =
     Inr fresh_session \<and>
   add_declaration id (''use_frameworks'', JNum 1) fresh_session = Inr fresh_session \<and>
   add_declaration id (''use_frameworks'', JStr ''1'') fresh_session = Inr fresh_session"
  using
    declaration_ignored_unless_true[of "(''use_frameworks'', JStr ''TRUE'')" id fresh_session
      plugin_a]
    declaration_ignored_unless_true[of "(''use_frameworks'', JBool True)" id fresh_session
      plugin_a]
    declaration_ignored_unless_true[of "(''use_frameworks'', JNum 1)" id fresh_session plugin_a]
    declaration_ignored_unless_true[of "(''use_frameworks'', JStr ''1'')" id fresh_session
      plugin_a]
  by simp

section \<open>Libraries kept out of Swift packages\<close>

lemma toLowerCase_char_t: "toLowerCase_char c = CHR ''t'' \<longleftrightarrow> c = CHR ''t'' \<or> c = CHR ''T''"
  by (auto simp: toLowerCase_char_def split: if_splits)

lemma toLowerCase_char_r: "toLowerCase_char c = CHR ''r'' \<longleftrightarrow> c = CHR ''r'' \<or> c = CHR ''R''"
  by (auto simp: toLowerCase_char_def split: if_splits)

lemma toLowerCase_char_u: "toLowerCase_char c = CHR ''u'' \<longleftrightarrow> c = CHR ''u'' \<or> c = CHR ''U''"
  by (auto simp: toLowerCase_char_def split: if_splits)

lemma toLowerCase_char_e: "toLowerCase_char c = CHR ''e'' \<longleftrightarrow> c = CHR ''e'' \<or> c = CHR ''E''"
  by (auto simp: toLowerCase_char_def split: if_splits)

lemma map_eq_four:
  "map f xs = [w, x, y, z] \<longleftrightarrow>
     (\<exists>a b c d. xs = [a, b, c, d] \<and> f a = w \<and> f b = x \<and> f c = y \<and> f d = z)"
  by (auto simp: map_eq_Cons_conv)

lemma toLowerCase_true:
  "toLowerCase str = ''true'' \<longleftrightarrow>
     (\<exists>a b c d. str = [a, b, c, d] \<and> (a = CHR ''t'' \<or> a = CHR ''T'') \<and>
        (b = CHR ''r'' \<or> b = CHR ''R'') \<and> (c = CHR ''u'' \<or> c = CHR ''U'') \<and>
        (d = CHR ''e'' \<or> d = CHR ''E''))"
  unfolding toLowerCase_def
  by (simp only: map_eq_four toLowerCase_char_t toLowerCase_char_r toLowerCase_char_u
      toLowerCase_char_e)

lemma isTrue_iff:
  "isTrue v \<longleftrightarrow>
     v = JBool True \<or> v = JNum 1 \<or>
     (\<exists>a b c d. v = JStr [a, b, c, d] \<and> (a = CHR ''t'' \<or> a = CHR ''T'') \<and>
        (b = CHR ''r'' \<or> b = CHR ''R'') \<and> (c = CHR ''u'' \<or> c = CHR ''U'') \<and>
        (d = CHR ''e'' \<or> d = CHR ''E''))"
  by (cases v) (simp_all add: toLowerCase_true)

lemma add_library_passes:
  "passes p kv \<Longrightarrow> add_library p opts kv s = add_library_block p opts kv s"
  by (auto simp: add_library_def passes_def Let_def)

lemma add_library_skips: "\<not> passes p kv \<Longrightarrow> add_library p opts kv s = Inr s"
  by (auto simp: add_library_def passes_def Let_def)

lemma remove_library_passes:
  "passes p kv \<Longrightarrow> remove_library p opts kv s = remove_library_block p opts kv s"
  by (auto simp: remove_library_def passes_def Let_def)

lemma remove_library_skips: "\<not> passes p kv \<Longrightarrow> remove_library p opts kv s = Inr s"
  by (auto simp: remove_library_def passes_def Let_def)

text \<open>
  Claim C8. A library whose \<^verbatim>\<open>nospm\<close> flag is \<^verbatim>\<open>true\<close>, the number 1, or the string
  \<^verbatim>\<open>'true'\<close> in any mix of upper and lower case, is skipped when its plugin is a Swift
  package plugin, at install and at uninstall: the session comes back as it was, so the
  ledger and the manifest are untouched and no event is emitted. When the plugin is not a Swift
  package plugin the flag decides nothing: the library goes through the guarded block like any
  other.
\<close>

theorem nospm_library_skipped:
  "(isSwiftPackagePlugin p \<and> isTrue (nospm (snd kv)) \<longrightarrow>
      add_library p opts kv s = Inr s \<and> remove_library p opts kv s = Inr s) \<and>
   (\<not> isSwiftPackagePlugin p2 \<longrightarrow>
      add_library p2 opts2 kv2 s2 = add_library_block p2 opts2 kv2 s2 \<and>
      remove_library p2 opts2 kv2 s2 = remove_library_block p2 opts2 kv2 s2) \<and>
   (isTrue v \<longleftrightarrow>
      v = JBool True \<or> v = JNum 1 \<or>
      (\<exists>a b c d. v = JStr [a, b, c, d] \<and> (a = CHR ''t'' \<or> a = CHR ''T'') \<and>
         (b = CHR ''r'' \<or> b = CHR ''R'') \<and> (c = CHR ''u'' \<or> c = CHR ''U'') \<and>
         (d = CHR ''e'' \<or> d = CHR ''E'')))"
proof (intro conjI impI)
  assume "isSwiftPackagePlugin p \<and> isTrue (nospm (snd kv))"
  then have "\<not> passes p kv" by (simp add: passes_def)
  then show "add_library p opts kv s = Inr s" and "remove_library p opts kv s = Inr s"
    by (simp_all add: add_library_skips remove_library_skips)
next
  assume "\<not> isSwiftPackagePlugin p2"
  then have "passes p2 kv2" by (simp add: passes_def)
  then show "add_library p2 opts2 kv2 s2 = add_library_block p2 opts2 kv2 s2"
    and "remove_library p2 opts2 kv2 s2 = remove_library_block p2 opts2 kv2 s2"
    by (simp_all add: add_library_passes remove_library_passes)
next
  show "isTrue v \<longleftrightarrow>
      v = JBool True \<or> v = JNum 1 \<or>
      (\<exists>a b c d. v = JStr [a, b, c, d] \<and> (a = CHR ''t'' \<or> a = CHR ''T'') \<and>
         (b = CHR ''r'' \<or> b = CHR ''R'') \<and> (c = CHR ''u'' \<or> c = CHR ''U'') \<and>
         (d = CHR ''e'' \<or> d = CHR ''E''))"
    by (rule isTrue_iff)
qed

text \<open>
  A Swift package plugin brings the library flagged \<^verbatim>\<open>'TRUE'\<close> into the project of the
  scenario: nothing happens at install or uninstall. Plugin A, which is no Swift package
  plugin, brings the same library into a project without pods: it is registered and added to
  the manifest, flag or no flag.
\<close>

theorem nospm_library_skipped_witness:
  "isSwiftPackagePlugin swift_plugin \<and> isTrue (nospm (snd (''AFNetworking'', cocoapods_only))) \<and>
   add_library swift_plugin no_variables (''AFNetworking'', cocoapods_only)
     (open_session world_after_a) = Inr (open_session world_after_a) \<and>
   remove_library swift_plugin no_variables (''AFNetworking'', cocoapods_only)
     (open_session world_after_a) = Inr (open_session world_after_a) \<and>
   \<not> isSwiftPackagePlugin plugin_a \<and>
   add_library plugin_a no_variables (''AFNetworking'', cocoapods_only) fresh_session =
     add_library_block plugin_a no_variables (''AFNetworking'', cocoapods_only) fresh_session \<and>
   add_library_block plugin_a no_variables (''AFNetworking'', cocoapods_only) fresh_session =
     Inr (fresh_session\<lparr>podsjsonFile := empty_ledger\<lparr>pj_libraries :=
             [''AFNetworking'' \<mapsto> \<lparr>payload = cocoapods_only, count = 1\<rparr>]\<rparr>,
           podfileFile := \<lparr>loaded = no_pods,
             contents = no_pods\<lparr>pf_pods := [(JStr ''AFNetworking'', cocoapods_only)]\<rparr>\<rparr>\<rparr>) \<and>
   isTrue (JStr ''TrUe'') \<and> isTrue (JNum 1) \<and> isTrue (JBool True) \<and> \<not> isTrue (JStr ''1'')"
proof -
  have blk: "add_library_block plugin_a no_variables (''AFNetworking'', cocoapods_only)
      fresh_session =
     Inr (fresh_session\<lparr>podsjsonFile := empty_ledger\<lparr>pj_libraries :=
             [''AFNetworking'' \<mapsto> \<lparr>payload = cocoapods_only, count = 1\<rparr>]\<rparr>,
           podfileFile := \<lparr>loaded = no_pods,
             contents = no_pods\<lparr>pf_pods := [(JStr ''AFNetworking'', cocoapods_only)]\<rparr>\<rparr>\<rparr>)"
    by (simp add: engine_defs scenario_defs)
  have flag: "isTrue (nospm (snd (''AFNetworking'', cocoapods_only)))"
    by (simp add: scenario_defs toLowerCase_def toLowerCase_char_def)
  from nospm_library_skipped[of swift_plugin "(''AFNetworking'', cocoapods_only)" no_variables
      "open_session world_after_a" plugin_a no_variables "(''AFNetworking'', cocoapods_only)"
      fresh_session "JStr ''TrUe''"]
    nospm_library_skipped[of swift_plugin "(''AFNetworking'', cocoapods_only)" no_variables
      "open_session world_after_a" plugin_a no_variables "(''AFNetworking'', cocoapods_only)"
      fresh_session "JStr ''1''"]
    blk flag
  show ?thesis
    by (simp add: swift_plugin_def plugin_a_def)
qed

section \<open>Pod specs that lack a section\<close>

lemma getVariableSpec_error: "getVariableSpec v opts = Inl err \<Longrightarrow> err = TypeError"
  by (cases v) (auto split: if_splits option.splits)

lemma replace_each_error: "replace_each es q opts = Inl err \<Longrightarrow> err = TypeError"
  by (induction es arbitrary: q) (auto split: sum.splits dest: getVariableSpec_error)

lemma replacePodSpecVariables_error:
  "replacePodSpecVariables q opts = Inl err \<Longrightarrow> err = TypeError"
  by (auto simp: replacePodSpecVariables_def dest: replace_each_error)

lemma forEach_error:
  assumes "\<And>x s err. f x s = Inl err \<Longrightarrow> err = TypeError"
  shows "forEach f xs s = Inl err \<Longrightarrow> err = TypeError"
  by (induction xs arbitrary: s) (auto split: sum.splits dest: assms)

lemma remove_declaration_total: "remove_declaration pd p kv s \<noteq> Inl err"
  by (simp add: remove_declaration_def Let_def)

lemma remove_source_total: "remove_source p kv s \<noteq> Inl err"
  by (simp add: remove_source_def Let_def)

lemma remove_library_error: "remove_library p opts kv s = Inl err \<Longrightarrow> err = TypeError"
  by (auto simp: remove_library_def remove_library_block_def Let_def
      split: if_splits sum.splits dest: replacePodSpecVariables_error)

lemma remove_obj_error:
  assumes "remove_obj pd p opts obj s = Inl err"
  shows "err = TypeError"
proof -
  have d: "forEach (remove_declaration pd p) ds s1 = Inl e \<Longrightarrow> e = TypeError" for ds s1 e
    by (rule forEach_error[of "remove_declaration pd p"]) (simp add: remove_declaration_total)
  have r: "forEach (remove_source p) ss s1 = Inl e \<Longrightarrow> e = TypeError" for ss s1 e
    by (rule forEach_error[of "remove_source p"]) (simp add: remove_source_total)
  have l: "forEach (remove_library p opts) ls s1 = Inl e \<Longrightarrow> e = TypeError" for ls s1 e
    by (rule forEach_error[of "remove_library p opts"]) (rule remove_library_error)
  from assms show ?thesis
    unfolding remove_obj_def Object_keys_def
    by (auto split: option.splits sum.splits dest: d r l)
qed

lemma remove_obj_lacking:
  "declarations obj = None \<or> sources obj = None \<or> libraries obj = None \<Longrightarrow>
     remove_obj pd p opts obj s = Inl TypeError"
  using remove_obj_error[of pd p opts obj s]
  by (cases "remove_obj pd p opts obj s")
    (auto simp: remove_obj_def Object_keys_def split: option.splits sum.splits)

lemma forEach_remove_obj_lacking:
  "obj \<in> set podSpecs \<Longrightarrow>
   declarations obj = None \<or> sources obj = None \<or> libraries obj = None \<Longrightarrow>
     forEach (remove_obj pd p opts) podSpecs s = Inl TypeError"
proof (induction podSpecs arbitrary: s)
  case Nil
  then show ?case by simp
next
  case (Cons x xs)
  show ?case
  proof (cases "remove_obj pd p opts x s")
    case (Inl err)
    then show ?thesis using remove_obj_error[OF Inl] by simp
  next
    case (Inr s')
    with Cons.prems remove_obj_lacking[of x pd p opts s] have "obj \<in> set xs" by auto
    from Cons.IH[OF this Cons.prems(2)] Inr show ?thesis by simp
  qed
qed

text \<open>
  Claim C10. The install guards each of the three sections of a pod spec and passes over a
  section that is not there: it treats the pod spec as if the section were empty. The uninstall
  lists the keys of all three sections without a guard: with a pod spec that lacks the
  declarations, the sources or the libraries, anywhere in the dependency set, the uninstall
  throws a \<^verbatim>\<open>TypeError\<close> and writes nothing. So there is a pod spec, the one without any
  section, whose uninstall throws while its install returns.
\<close>

theorem uninstall_needs_every_section:
  "(obj \<in> set podSpecs \<and>
    (declarations obj = None \<or> sources obj = None \<or> libraries obj = None) \<longrightarrow>
      removePodSpecs proofDeclaration p podSpecs opts w = Inl TypeError) \<and>
   add_obj proofDeclaration p opts (obj2\<lparr>declarations := None\<rparr>) s =
     add_obj proofDeclaration p opts (obj2\<lparr>declarations := Some []\<rparr>) s \<and>
   add_obj proofDeclaration p opts (obj2\<lparr>sources := None\<rparr>) s =
     add_obj proofDeclaration p opts (obj2\<lparr>sources := Some []\<rparr>) s \<and>
   add_obj proofDeclaration p opts (obj2\<lparr>libraries := None\<rparr>) s =
     add_obj proofDeclaration p opts (obj2\<lparr>libraries := Some []\<rparr>) s \<and>
   (\<exists>w'. addPodSpecs proofDeclaration p
            [\<lparr>declarations = None, sources = None, libraries = None\<rparr>] opts w = Inr w')"
proof (intro conjI impI)
  assume a: "obj \<in> set podSpecs \<and>
    (declarations obj = None \<or> sources obj = None \<or> libraries obj = None)"
  then have ne: "podSpecs \<noteq> []" by auto
  from a have "forEach (remove_obj proofDeclaration p opts) podSpecs s0 = Inl TypeError" for s0
    by (intro forEach_remove_obj_lacking) auto
  then show "removePodSpecs proofDeclaration p podSpecs opts w = Inl TypeError"
    by (simp add: removePodSpecs_def ne Let_def)
next
  show "add_obj proofDeclaration p opts (obj2\<lparr>declarations := None\<rparr>) s =
     add_obj proofDeclaration p opts (obj2\<lparr>declarations := Some []\<rparr>) s"
    by (simp add: add_obj_def split: sum.splits)
  show "add_obj proofDeclaration p opts (obj2\<lparr>sources := None\<rparr>) s =
     add_obj proofDeclaration p opts (obj2\<lparr>sources := Some []\<rparr>) s"
    by (simp add: add_obj_def split: sum.splits)
  show "add_obj proofDeclaration p opts (obj2\<lparr>libraries := None\<rparr>) s =
     add_obj proofDeclaration p opts (obj2\<lparr>libraries := Some []\<rparr>) s"
    by (simp add: add_obj_def split: sum.splits)
  show "\<exists>w'. addPodSpecs proofDeclaration p
            [\<lparr>declarations = None, sources = None, libraries = None\<rparr>] opts w = Inr w'"
    by (simp add: addPodSpecs_def add_obj_def Let_def)
qed

text \<open>
  The pod spec of the scenario without its sources (a plugin whose \<^verbatim>\<open>podspec\<close> has no
  \<^verbatim>\<open>config\<close> element): plugin A installs it into the project without pods, and the uninstall
  from the project so reached throws.
\<close>

theorem uninstall_needs_every_section_witness:
  "afnetworking_podspec\<lparr>sources := None\<rparr> \<in> set [afnetworking_podspec\<lparr>sources := None\<rparr>] \<and>
   sources (afnetworking_podspec\<lparr>sources := None\<rparr>) = None \<and>
   removePodSpecs id plugin_a [afnetworking_podspec\<lparr>sources := None\<rparr>] no_variables
     world_after_a = Inl TypeError \<and>
   addPodSpecs id plugin_a [afnetworking_podspec\<lparr>sources := None\<rparr>] no_variables fresh_world =
     Inr (world_after_a\<lparr>pods_json := ledger_after_a\<lparr>pj_sources := Map.empty\<rparr>,
            podfile_text := pods_after_a\<lparr>pf_sources := []\<rparr>\<rparr>)"
proof -
  have run: "addPodSpecs id plugin_a [afnetworking_podspec\<lparr>sources := None\<rparr>] no_variables
      fresh_world =
     Inr (world_after_a\<lparr>pods_json := ledger_after_a\<lparr>pj_sources := Map.empty\<rparr>,
            podfile_text := pods_after_a\<lparr>pf_sources := []\<rparr>\<rparr>)"
    by (simp add: engine_defs scenario_defs)
  from uninstall_needs_every_section[of "afnetworking_podspec\<lparr>sources := None\<rparr>"
      "[afnetworking_podspec\<lparr>sources := None\<rparr>]" id plugin_a no_variables world_after_a]
    run
  show ?thesis by simp
qed

section \<open>Uninstalling what the ledger does not know\<close>



section \<open>The steps of the install\<close>












section \<open>The warning on a library that is already registered\<close>




section \<open>The uninstall of a registered library\<close>



section \<open>What a call persists\<close>







section \<open>Installing the same set twice\<close>

subsection \<open>Iteration inside a preorder\<close>









subsection \<open>The first call\<close>

















subsection \<open>The second call\<close>

















end
